theory Spec2Isabelle
  imports Main
begin

section \<open>Exceptions\<close>

text \<open>
  The module \<^verbatim>\<open>gdutils.extract\<close> raises built-in Python exceptions only. An exception
  is modelled by its class and the text of its message template (format holes left as
  they are in the source); an exception built around another one (\<^verbatim>\<open>.format(e)\<close>, or
  \<^verbatim>\<open>RuntimeError("Extraction failed:", e)\<close>) carries it.
\<close>

datatype exn_class =
    Exception | AttributeError | RuntimeError | KeyError | TypeError | ValueError
  | StopIteration | BadZipFile | OSError | FileNotFoundError | FileExistsError
  | NotADirectoryError

datatype exn = Exn exn_class string | ExnFrom exn_class string exn

fun class_of :: "exn \<Rightarrow> exn_class" where
  "class_of (Exn c m) = c"
| "class_of (ExnFrom c m e) = c"

text \<open>In Python 3 \<^verbatim>\<open>IOError\<close> is an alias of \<^verbatim>\<open>OSError\<close>; these are its subclasses used here.\<close>

fun is_IOError :: "exn \<Rightarrow> bool" where
  "is_IOError e = (class_of e = OSError \<or> class_of e = FileNotFoundError
                   \<or> class_of e = FileExistsError \<or> class_of e = NotADirectoryError)"

section \<open>Tables\<close>

text \<open>
  A data frame: ordered column labels, an index (its name and one label per row) and the
  rows, each with one cell per column. A freshly read frame has the unnamed index
  \<open>0, 1, 2, ...\<close>. Column labels are taken to be unique, as the data model says; a lookup
  finds the first occurrence.
\<close>

datatype cell = Null | Num int | Str string | Geom string

record table =
  columns :: "string list"
  index_name :: "string option"
  rows :: "(cell \<times> cell list) list"

fun position :: "'a \<Rightarrow> 'a list \<Rightarrow> nat option" where
  "position x [] = None"
| "position x (y # ys) = (if x = y then Some 0 else map_option Suc (position x ys))"

fun remove_at :: "nat \<Rightarrow> 'a list \<Rightarrow> 'a list" where
  "remove_at i [] = []"
| "remove_at 0 (x # xs) = xs"
| "remove_at (Suc i) (x # xs) = x # remove_at i xs"

text \<open>A row that is too short reads as null in the missing columns.\<close>

definition fit :: "nat \<Rightarrow> cell list \<Rightarrow> cell list" where
  "fit n r = take n (r @ replicate n Null)"

definition cell_at :: "cell list \<Rightarrow> nat \<Rightarrow> cell" where
  "cell_at r i = (if i < length r then r ! i else Null)"

definition nrows :: "table \<Rightarrow> nat" where
  "nrows t = length (rows t)"

text \<open>\<^verbatim>\<open>df[column]\<close>: the column's cells, or \<^verbatim>\<open>KeyError\<close>.\<close>

definition getitem :: "table \<Rightarrow> string \<Rightarrow> exn + cell list" where
  "getitem t c =
     (case position c (columns t) of
        None \<Rightarrow> Inl (Exn KeyError c)
      | Some i \<Rightarrow> Inr (map (\<lambda>lr. cell_at (snd lr) i) (rows t)))"

text \<open>\<^verbatim>\<open>self.__table[column]\<close> where \<^verbatim>\<open>self.__table\<close> may still be \<^verbatim>\<open>None\<close>.\<close>

definition subscript :: "table option \<Rightarrow> string \<Rightarrow> exn + cell list" where
  "subscript tab c =
     (case tab of
        None \<Rightarrow> Inl (Exn TypeError ''NoneType object is not subscriptable'')
      | Some t \<Rightarrow> getitem t c)"

text \<open>\<^verbatim>\<open>df.empty\<close>: some axis has length 0.\<close>

definition empty_df :: "table \<Rightarrow> bool" where
  "empty_df t = (rows t = [] \<or> columns t = [])"

text \<open>\<^verbatim>\<open>df[mask]\<close>: the rows whose mask entry is true, index labels kept.\<close>

definition select_rows :: "table \<Rightarrow> bool list \<Rightarrow> table" where
  "select_rows t keep = t\<lparr>rows := map fst (filter snd (zip (rows t) keep))\<rparr>"

text \<open>\<^verbatim>\<open>df.drop(columns=c)\<close>.\<close>

definition drop_column :: "table \<Rightarrow> string \<Rightarrow> exn + table" where
  "drop_column t c =
     (case position c (columns t) of
        None \<Rightarrow> Inl (Exn KeyError c)
      | Some i \<Rightarrow>
          Inr (t\<lparr>columns := remove_at i (columns t),
                 rows := map (\<lambda>lr. (fst lr, remove_at i (fit (length (columns t)) (snd lr))))
                             (rows t)\<rparr>))"

text \<open>
  \<^verbatim>\<open>df.set_index(c)\<close>: the column leaves the columns and its cells become the index
  labels, row by row.
\<close>

definition set_index :: "table \<Rightarrow> string \<Rightarrow> exn + table" where
  "set_index t c =
     (case position c (columns t) of
        None \<Rightarrow> Inl (Exn KeyError c)
      | Some i \<Rightarrow>
          Inr (t\<lparr>columns := remove_at i (columns t),
                 index_name := Some c,
                 rows := map (\<lambda>lr. (cell_at (snd lr) i,
                                      remove_at i (fit (length (columns t)) (snd lr))))
                             (rows t)\<rparr>))"

text \<open>A new last column, one cell per row.\<close>

definition add_column :: "table \<Rightarrow> string \<Rightarrow> cell list \<Rightarrow> table" where
  "add_column t c cs =
     t\<lparr>columns := columns t @ [c],
       rows := map (\<lambda>(lr, x). (fst lr, fit (length (columns t)) (snd lr) @ [x]))
                   (zip (rows t) cs)\<rparr>"

subsection \<open>Geometry\<close>

text \<open>
  \<^verbatim>\<open>shapely.wkt.loads\<close> is an external parser: it is a parameter \<open>wkt\<close> of the model,
  giving the parsed shape of a well-known-text string or nothing when the text is not
  well formed. Applied to anything that is not a string (a null, a number, a shape that is
  already parsed) it raises.
\<close>

type_synonym wkt_parser = "string \<Rightarrow> string option"

fun wkt_cell :: "wkt_parser \<Rightarrow> cell \<Rightarrow> cell option" where
  "wkt_cell wkt (Str s) = map_option Geom (wkt s)"
| "wkt_cell wkt c = None"

text \<open>\<^verbatim>\<open>series.map(shapely.wkt.loads)\<close>: raises as soon as one cell does not parse.\<close>

definition map_wkt :: "wkt_parser \<Rightarrow> cell list \<Rightarrow> exn + cell list" where
  "map_wkt wkt cs =
     (case those (map (wkt_cell wkt) cs) of
        None \<Rightarrow> Inl (Exn Exception ''wkt.loads'')
      | Some gs \<Rightarrow> Inr gs)"

text \<open>
  \<^verbatim>\<open>__geometrize_gdf\<close>. The \<^verbatim>\<open>try\<close> block reads the geometry column, parses it, drops it
  and puts the parsed one back; any exception leads to the handler, which adds an empty
  geometry column when there is none and otherwise returns the frame as it is.
\<close>

definition geometrize_try :: "wkt_parser \<Rightarrow> table \<Rightarrow> exn + table" where
  "geometrize_try wkt gdf =
     (case getitem gdf ''geometry'' of
        Inl e \<Rightarrow> Inl e
      | Inr col \<Rightarrow>
         (case map_wkt wkt col of
            Inl e \<Rightarrow> Inl e
          | Inr geometry \<Rightarrow>
             (case drop_column gdf ''geometry'' of
                Inl e \<Rightarrow> Inl e
              | Inr geometrized \<Rightarrow> Inr (add_column geometrized ''geometry'' geometry))))"

definition geometrize_gdf :: "wkt_parser \<Rightarrow> table \<Rightarrow> table" where
  "geometrize_gdf wkt gdf =
     (case geometrize_try wkt gdf of
        Inr g \<Rightarrow> g
      | Inl e \<Rightarrow>
          if ''geometry'' \<notin> set (columns gdf)
          then add_column gdf ''geometry'' (replicate (nrows gdf) Null)
          else gdf)"

text \<open>\<^verbatim>\<open>__has_spatial_data\<close>: \<^verbatim>\<open>not gdf['geometry'].isna().all()\<close>.\<close>

definition has_spatial_data :: "table \<Rightarrow> exn + bool" where
  "has_spatial_data gdf =
     (case getitem gdf ''geometry'' of
        Inl e \<Rightarrow> Inl e
      | Inr col \<Rightarrow> Inr (\<not> list_all (\<lambda>c. c = Null) col))"

section \<open>The ExtractTable object\<close>

text \<open>
  The value of the filter is a string or a list of strings. A \<^verbatim>\<open>pathlib.Path\<close> is
  modelled by its parts.
\<close>

datatype filter_value = Single string | Many "string list"

type_synonym path = "string list"

record extract_table =
  et_infile :: "string option"
  et_outfile :: "path option"
  et_column :: "string option"
  et_value :: "filter_value option"
  et_table :: "table option"
  et_coldata :: "cell list option"
  et_foundval :: bool
  et_extracted :: "table option"

text \<open>The attribute values \<^verbatim>\<open>__init__\<close> assigns before it calls the setters.\<close>

definition blank :: extract_table where
  "blank = \<lparr>et_infile = None, et_outfile = None, et_column = None, et_value = None,
            et_table = None, et_coldata = None, et_foundval = False, et_extracted = None\<rparr>"

subsection \<open>The column setter\<close>

definition column_set :: "string option \<Rightarrow> extract_table \<Rightarrow> (exn + unit) \<times> extract_table" where
  "column_set column s =
     (case column of
        None \<Rightarrow> (Inr (), s)
      | Some c \<Rightarrow>
         (case subscript (et_table s) c of
            Inl e \<Rightarrow> (Inl (ExnFrom KeyError ''Column not found: {}'' e), s)
          | Inr d \<Rightarrow>
              (Inr (), s\<lparr>et_coldata := Some d, et_column := Some c, et_value := None\<rparr>)))"

subsection \<open>The value setter\<close>

text \<open>
  \<^verbatim>\<open>series == value\<close> compares every cell with a string. With a list it compares cell by
  cell when the list is as long as the column, and raises \<^verbatim>\<open>ValueError\<close> ("Lengths must
  match to compare") otherwise: only then does the setter's handler reach
  \<^verbatim>\<open>series.isin(value)\<close>.
\<close>

fun series_eq :: "cell list \<Rightarrow> filter_value \<Rightarrow> exn + bool list" where
  "series_eq col (Single v) = Inr (map (\<lambda>c. c = Str v) col)"
| "series_eq col (Many vs) =
     (if length vs = length col
      then Inr (map (\<lambda>(c, v). c = Str v) (zip col vs))
      else Inl (Exn ValueError ''Lengths must match to compare''))"

fun isin :: "cell list \<Rightarrow> filter_value \<Rightarrow> exn + bool list" where
  "isin col (Many vs) = Inr (map (\<lambda>c. c \<in> Str ` set vs) col)"
| "isin col (Single v) =
     Inl (Exn TypeError ''only list-like objects are allowed to be passed to isin()'')"

text \<open>\<^verbatim>\<open>self.__table[self.__table[self.column] == value]\<close> and its \<^verbatim>\<open>isin\<close> twin.\<close>

definition rows_equal :: "table \<Rightarrow> string option \<Rightarrow> filter_value \<Rightarrow> exn + table" where
  "rows_equal t column v =
     (case column of
        None \<Rightarrow> Inl (Exn KeyError ''None'')
      | Some c \<Rightarrow>
         (case getitem t c of
            Inl e \<Rightarrow> Inl e
          | Inr col \<Rightarrow>
             (case series_eq col v of
                Inl e \<Rightarrow> Inl e
              | Inr keep \<Rightarrow> Inr (select_rows t keep))))"

definition rows_isin :: "table \<Rightarrow> string option \<Rightarrow> filter_value \<Rightarrow> exn + table" where
  "rows_isin t column v =
     (case column of
        None \<Rightarrow> Inl (Exn KeyError ''None'')
      | Some c \<Rightarrow>
         (case getitem t c of
            Inl e \<Rightarrow> Inl e
          | Inr col \<Rightarrow>
             (case isin col v of
                Inl e \<Rightarrow> Inl e
              | Inr keep \<Rightarrow> Inr (select_rows t keep))))"

text \<open>The \<^verbatim>\<open>try\<close> statement of the setter: the comparison, and \<^verbatim>\<open>isin\<close> when it raises.\<close>

definition select_value :: "table \<Rightarrow> string option \<Rightarrow> filter_value \<Rightarrow> exn + table" where
  "select_value t column v =
     (case rows_equal t column v of
        Inr x \<Rightarrow> Inr x
      | Inl _ \<Rightarrow> rows_isin t column v)"

text \<open>
  The setter assigns \<^verbatim>\<open>self.__extracted\<close> first and tests \<^verbatim>\<open>.empty\<close> afterwards, so the
  state returned with the \<^verbatim>\<open>KeyError\<close> already holds the new, empty selection.
\<close>

definition value_set ::
  "filter_value option \<Rightarrow> extract_table \<Rightarrow> (exn + unit) \<times> extract_table" where
  "value_set v s =
     (case v of
        None \<Rightarrow> (Inr (), s)
      | Some val \<Rightarrow>
         (case et_table s of
            None \<Rightarrow> (Inl (Exn KeyError ''Cannot set value without specifying tabular data''), s)
          | Some t \<Rightarrow>
             (if et_column s = None
              then (Inl (Exn KeyError ''Cannot set value without specifying column''), s)
              else
                (case select_value t (et_column s) val of
                   Inl e \<Rightarrow> (Inl e, s)
                 | Inr ex \<Rightarrow>
                     (if empty_df ex
                      then (Inl (Exn KeyError ''Column {} has no value {}''),
                            s\<lparr>et_extracted := Some ex\<rparr>)
                      else (Inr (), s\<lparr>et_extracted := Some ex, et_value := Some val\<rparr>))))))"

subsection \<open>extract\<close>

text \<open>The method \<^verbatim>\<open>extract\<close> is named \<open>extract_gdf\<close> here.\<close>

text \<open>Python's truth value of \<^verbatim>\<open>self.column\<close>: \<^verbatim>\<open>None\<close> and the empty string are false.\<close>

fun truthy :: "string option \<Rightarrow> bool" where
  "truthy None = False"
| "truthy (Some c) = (c \<noteq> [])"

text \<open>\<^verbatim>\<open>x.set_index(self.column)\<close> on an attribute that may be \<^verbatim>\<open>None\<close>.\<close>

definition attr_set_index :: "table option \<Rightarrow> string option \<Rightarrow> exn + table" where
  "attr_set_index tab column =
     (case tab of
        None \<Rightarrow> Inl (Exn AttributeError ''NoneType object has no attribute set_index'')
      | Some t \<Rightarrow>
         (case column of
            None \<Rightarrow> Inl (Exn KeyError ''None'')
          | Some c \<Rightarrow> set_index t c))"

definition reindex :: "wkt_parser \<Rightarrow> extract_table \<Rightarrow> exn + table" where
  "reindex wkt s =
     (if et_value s \<noteq> None
      then map_sum id (geometrize_gdf wkt) (attr_set_index (et_extracted s) (et_column s))
      else map_sum id (geometrize_gdf wkt) (attr_set_index (et_table s) (et_column s)))"

definition extract_gdf :: "wkt_parser \<Rightarrow> extract_table \<Rightarrow> exn + table" where
  "extract_gdf wkt s =
     (case et_table s of
        None \<Rightarrow> Inl (Exn RuntimeError ''Unable to find tabular data to extract'')
      | Some t \<Rightarrow> if truthy (et_column s) then reindex wkt s else Inr t)"

section \<open>Paths and the file system\<close>

text \<open>
  The arguments the setters and the file functions may be handed: Python objects of the
  kinds that occur as arguments here.
\<close>

datatype pyobj =
    PyNone | PyBool bool | PyInt int | PyStr string | PyPath path | PyList "pyobj list"

text \<open>\<^verbatim>\<open>x is None\<close>: identity with the single \<^verbatim>\<open>None\<close> object.\<close>

definition is_None :: "pyobj \<Rightarrow> bool" where
  "is_None x = (x = PyNone)"

fun split_sep :: "string \<Rightarrow> string list" where
  "split_sep [] = [[]]"
| "split_sep (c # cs) =
     (if c = CHR ''/'' then [] # split_sep cs
      else (case split_sep cs of [] \<Rightarrow> [[c]] | w # ws \<Rightarrow> (c # w) # ws))"

text \<open>
  The parts of a POSIX path, as \<^verbatim>\<open>pathlib\<close> keeps them: the root first when there is one,
  then the components, empty ones and \<^verbatim>\<open>.\<close> left out. The current directory has no
  parts.
\<close>

definition path_root :: "string \<Rightarrow> string list" where
  "path_root s =
     (if take 2 s = ''//'' \<and> take 3 s \<noteq> ''///'' then [''//'']
      else if take 1 s = ''/'' then [''/'']
      else [])"

definition parts_of :: "string \<Rightarrow> path" where
  "parts_of s = path_root s @ filter (\<lambda>w. w \<noteq> [] \<and> w \<noteq> ''.'') (split_sep s)"

text \<open>\<^verbatim>\<open>pathlib.Path(x)\<close>: a string or a path is accepted, anything else is a \<^verbatim>\<open>TypeError\<close>.\<close>

fun pathlib_Path :: "pyobj \<Rightarrow> exn + path" where
  "pathlib_Path (PyStr s) = Inr (parts_of s)"
| "pathlib_Path (PyPath p) = Inr p"
| "pathlib_Path x =
     Inl (Exn TypeError ''expected str, bytes or os.PathLike object'')"

definition parent :: "path \<Rightarrow> path" where
  "parent p = (if p = [] \<or> p = [''/''] \<or> p = [''//''] then p else butlast p)"

text \<open>\<^verbatim>\<open>str(path)\<close>.\<close>

fun join_parts :: "string list \<Rightarrow> string" where
  "join_parts [] = []"
| "join_parts [w] = w"
| "join_parts (w # ws) = w @ ''/'' @ join_parts ws"

definition str_of_path :: "path \<Rightarrow> string" where
  "str_of_path p =
     (case p of
        [] \<Rightarrow> ''.''
      | r # ws \<Rightarrow> if r = ''/'' \<or> r = ''//'' then r @ join_parts ws else join_parts p)"

text \<open>
  \<^verbatim>\<open>os.path.splitext\<close>: the extension starts at the last dot of the last component,
  provided a character other than a dot comes before it in that component.
\<close>

definition splitext :: "string \<Rightarrow> string \<times> string" where
  "splitext p =
     (let name = rev (takeWhile (\<lambda>c. c \<noteq> CHR ''/'') (rev p));
          suffix = takeWhile (\<lambda>c. c \<noteq> CHR ''.'') (rev name);
          k = length p - (length suffix + 1)
      in if CHR ''.'' \<in> set name
            \<and> filter (\<lambda>c. c \<noteq> CHR ''.'') (take (length name - (length suffix + 1)) name) \<noteq> []
         then (take k p, drop k p)
         else (p, []))"

definition lower_char :: "char \<Rightarrow> char" where
  "lower_char c =
     (let n = (of_char c :: nat) in if 65 \<le> n \<and> n \<le> 90 then char_of (n + 32) else c)"

definition get_extension :: "string \<Rightarrow> string" where
  "get_extension filename = map lower_char (snd (splitext filename))"

text \<open>\<^verbatim>\<open>os.path.join(a, b)\<close> for a relative \<open>b\<close>.\<close>

definition os_path_join :: "string \<Rightarrow> string \<Rightarrow> string" where
  "os_path_join a b =
     (if a = [] \<or> last a = CHR ''/'' then a @ b else a @ ''/'' @ b)"

subsection \<open>Files\<close>

text \<open>
  A file is one that some reader parses to a table (tagged with the format whose reader
  does so), an archive with its members (name and content), or anything else. The file
  system holds the directories, the regular files in listing order, the targets to
  which writing is refused, and what was printed on standard output. The current
  directory and the root always exist; there are no symbolic links and \<^verbatim>\<open>..\<close> is
  an ordinary name.
\<close>

datatype format =
    CSV | CSV_Latin1 | Pickle | Excel | HTML | JSON | Latex | Markdown | Text
  | Vector string

datatype content = Tabular format table | Archive "(string \<times> content) list" | Opaque

record filesystem =
  fs_dirs :: "path list"
  fs_files :: "(path \<times> content) list"
  fs_denied :: "path list"
  fs_stdout :: "table list"

definition is_dir :: "filesystem \<Rightarrow> path \<Rightarrow> bool" where
  "is_dir fs p = (p = [] \<or> p = [''/''] \<or> p = [''//''] \<or> p \<in> set (fs_dirs fs))"

definition is_file :: "filesystem \<Rightarrow> path \<Rightarrow> bool" where
  "is_file fs p = (map_of (fs_files fs) p \<noteq> None)"

definition os_path_isdir :: "filesystem \<Rightarrow> string \<Rightarrow> bool" where
  "os_path_isdir fs s = (s \<noteq> [] \<and> is_dir fs (parts_of s))"

fun put_file :: "path \<Rightarrow> content \<Rightarrow> (path \<times> content) list \<Rightarrow> (path \<times> content) list" where
  "put_file p c [] = [(p, c)]"
| "put_file p c (qd # fs) = (if fst qd = p then (p, c) # fs else qd # put_file p c fs)"

text \<open>The directories on the way to \<open>d\<close>, \<open>d\<close> included, shortest first.\<close>

definition ancestors :: "path \<Rightarrow> path list" where
  "ancestors d = map (\<lambda>k. take k d) [1..<Suc (length d)]"

text \<open>
  \<^verbatim>\<open>os.makedirs(d, exist_ok=True)\<close> as the archive reader uses it: every missing
  directory on the way is created; a regular file on the way is an error.
\<close>

definition ensure_dirs :: "filesystem \<Rightarrow> path \<Rightarrow> exn + filesystem" where
  "ensure_dirs fs d =
     (if list_ex (is_file fs) (ancestors d)
      then Inl (Exn NotADirectoryError (str_of_path d))
      else Inr (fs\<lparr>fs_dirs := fs_dirs fs @ filter (\<lambda>a. \<not> is_dir fs a) (ancestors d)\<rparr>))"

text \<open>\<^verbatim>\<open>os.makedirs(d)\<close>: as above, but \<open>d\<close> itself must not exist yet.\<close>

definition makedirs :: "filesystem \<Rightarrow> path \<Rightarrow> exn + filesystem" where
  "makedirs fs d =
     (if is_dir fs d \<or> is_file fs d then Inl (Exn FileExistsError (str_of_path d))
      else ensure_dirs fs d)"

text \<open>
  Opening \<open>target\<close> for writing and storing \<open>c\<close> there. It fails when the directory does
  not exist, when the target is a directory and when writing there is refused. The error
  for a missing directory has the class \<^verbatim>\<open>open\<close> gives it; a writer of the table library
  may raise its parent class \<^verbatim>\<open>OSError\<close> instead. The handler of \<^verbatim>\<open>extract_to_file\<close>
  catches every class.
\<close>

definition write_file :: "filesystem \<Rightarrow> string \<Rightarrow> content \<Rightarrow> exn + filesystem" where
  "write_file fs filename c =
     (let target = parts_of filename in
      if \<not> is_dir fs (parent target) then Inl (Exn FileNotFoundError filename)
      else if is_dir fs target then Inl (Exn OSError ''Is a directory'')
      else if target \<in> set (fs_denied fs) then Inl (Exn OSError ''Permission denied'')
      else Inr (fs\<lparr>fs_files := put_file target c (fs_files fs)\<rparr>))"

subsection \<open>Archives\<close>

text \<open>
  \<^verbatim>\<open>ZipFile.extractall(cwd)\<close> writes the members one after the other below \<open>cwd\<close>; the
  first failure stops it and the members written before stay. An archive without
  members writes nothing and creates nothing.
\<close>

definition extract_member :: "path \<Rightarrow> filesystem \<Rightarrow> string \<times> content \<Rightarrow> exn + filesystem" where
  "extract_member cwd fs m =
     (let rel = filter (\<lambda>w. w \<noteq> [] \<and> w \<noteq> ''.'' \<and> w \<noteq> ''..'') (split_sep (fst m));
          target = cwd @ rel
      in if rel = [] then ensure_dirs fs cwd
         else (case ensure_dirs fs (butlast target) of
                 Inl e \<Rightarrow> Inl e
               | Inr fs' \<Rightarrow>
                   if is_dir fs' target then Inl (Exn OSError ''Is a directory'')
                   else Inr (fs'\<lparr>fs_files := put_file target (snd m) (fs_files fs')\<rparr>)))"

fun extract_members ::
  "path \<Rightarrow> (string \<times> content) list \<Rightarrow> filesystem \<Rightarrow> exn option \<times> filesystem" where
  "extract_members cwd [] fs = (None, fs)"
| "extract_members cwd (m # ms) fs =
     (case extract_member cwd fs m of
        Inl e \<Rightarrow> (Some e, fs)
      | Inr fs' \<Rightarrow> extract_members cwd ms fs')"

text \<open>\<^verbatim>\<open>with zipfile.ZipFile(filename, 'r') as zipped: zipped.extractall(cwd)\<close>.\<close>

definition zip_extractall :: "filesystem \<Rightarrow> string \<Rightarrow> string \<Rightarrow> exn option \<times> filesystem" where
  "zip_extractall fs filename cwd =
     (case map_of (fs_files fs) (parts_of filename) of
        None \<Rightarrow> (Some (Exn FileNotFoundError filename), fs)
      | Some (Archive ms) \<Rightarrow> extract_members (parts_of cwd) ms fs
      | Some _ \<Rightarrow> (Some (Exn BadZipFile ''File is not a zip file''), fs))"

text \<open>
  \<^verbatim>\<open>next(os.walk(cwd))\<close>: the names of the regular files directly in \<open>cwd\<close>. When \<open>cwd\<close>
  is no directory \<^verbatim>\<open>os.walk\<close> yields nothing and \<^verbatim>\<open>next\<close> raises \<^verbatim>\<open>StopIteration\<close>.
  The names come in the order in which the model holds the files; the order of a real
  listing is that of the operating system.
\<close>

definition os_walk_next :: "filesystem \<Rightarrow> string \<Rightarrow> exn + string list" where
  "os_walk_next fs cwd =
     (if os_path_isdir fs cwd
      then Inr (map (\<lambda>pc. last (fst pc))
                    (filter (\<lambda>pc. fst pc \<noteq> [] \<and> butlast (fst pc) = parts_of cwd) (fs_files fs)))
      else Inl (Exn StopIteration []))"

text \<open>
  \<^verbatim>\<open>__unzip\<close>. The test before the listing is \<^verbatim>\<open>os.path.isdir(cwd) is None\<close>: a comparison
  of a truth value with \<^verbatim>\<open>None\<close>.
\<close>

definition unzip :: "filesystem \<Rightarrow> string \<Rightarrow> (exn + string list) \<times> filesystem" where
  "unzip fs filename =
     (let cwd = fst (splitext filename) in
      case zip_extractall fs filename cwd of
        (Some e, fs') \<Rightarrow> (Inl e, fs')
      | (None, fs') \<Rightarrow>
          if is_None (PyBool (os_path_isdir fs' cwd))
          then (Inl (Exn OSError ''Directory {} not found.''), fs')
          else (case os_walk_next fs' cwd of
                  Inl e \<Rightarrow> (Inl e, fs')
                | Inr files \<Rightarrow> (Inr (map (os_path_join cwd) files), fs')))"

section \<open>Reading\<close>

text \<open>
  What \<^verbatim>\<open>infile\<close> may be, and what a reader may hand to \<^verbatim>\<open>gpd.GeoDataFrame\<close>: a file name,
  a frame in memory, or the list of frames \<^verbatim>\<open>pd.read_html\<close> returns.
\<close>

datatype data = Filename string | Frame table | Frames "table list"

fun GeoDataFrame :: "data \<Rightarrow> exn + table" where
  "GeoDataFrame (Frame t) = Inr t"
| "GeoDataFrame (Filename f) = Inl (Exn ValueError ''DataFrame constructor not properly called!'')"
| "GeoDataFrame (Frames ts) = Inl (Exn ValueError ''Must pass 2-d input'')"

text \<open>
  A reader parses the files of the formats it accepts. A file has one format here: that
  a reader may also accept a file of another format (\<^verbatim>\<open>pd.read_json\<close> a GeoJSON file)
  is not modelled.
\<close>

definition read_with :: "(format \<Rightarrow> bool) \<Rightarrow> filesystem \<Rightarrow> string \<Rightarrow> exn + table" where
  "read_with accepts fs filename =
     (case map_of (fs_files fs) (parts_of filename) of
        None \<Rightarrow> Inl (Exn FileNotFoundError filename)
      | Some (Tabular f t) \<Rightarrow>
          if accepts f then Inr t else Inl (Exn ValueError ''cannot parse the file'')
      | Some _ \<Rightarrow> Inl (Exn ValueError ''cannot parse the file''))"

fun is_vector :: "format \<Rightarrow> bool" where
  "is_vector (Vector d) = True"
| "is_vector f = False"

definition read_inferred :: "filesystem \<Rightarrow> string \<Rightarrow> string \<Rightarrow> exn + data" where
  "read_inferred fs filename ext =
     (if ext = ''.csv'' then
        (case read_with (\<lambda>f. f = CSV) fs filename of
           Inr t \<Rightarrow> Inr (Frame t)
         | Inl _ \<Rightarrow> map_sum id Frame (read_with (\<lambda>f. f = CSV \<or> f = CSV_Latin1) fs filename))
      else if ext = ''.pkl'' \<or> ext = ''.bz2'' \<or> ext = ''.zip'' \<or> ext = ''.gzip'' \<or> ext = ''.xz''
        then map_sum id Frame (read_with (\<lambda>f. f = Pickle) fs filename)
      else if ext = ''.xlsx'' then map_sum id Frame (read_with (\<lambda>f. f = Excel) fs filename)
      else if ext = ''.html''
        then map_sum id (\<lambda>t. Frames [t]) (read_with (\<lambda>f. f = HTML) fs filename)
      else if ext = ''.json'' then map_sum id Frame (read_with (\<lambda>f. f = JSON) fs filename)
      else Inl (Exn FileNotFoundError ''Cannot read {}''))"

text \<open>The branch of \<^verbatim>\<open>__read_file\<close> for a file that is no archive.\<close>

definition read_plain :: "wkt_parser \<Rightarrow> filesystem \<Rightarrow> string \<Rightarrow> string \<Rightarrow> exn + string \<times> table" where
  "read_plain wkt fs filename ext =
     (case (case read_inferred fs filename ext of Inl e \<Rightarrow> Inl e | Inr d \<Rightarrow> GeoDataFrame d) of
        Inr t \<Rightarrow> Inr (filename, geometrize_gdf wkt t)
      | Inl _ \<Rightarrow>
         (case read_with is_vector fs filename of
            Inl e \<Rightarrow> Inl e
          | Inr t \<Rightarrow> Inr (filename, geometrize_gdf wkt t)))"

text \<open>
  \<^verbatim>\<open>__read_file\<close> and \<^verbatim>\<open>__read_zip\<close> call each other, once more for every archive inside
  an archive. The first argument bounds that nesting; \<open>None\<close> is the answer when the bound
  is used up. \<open>read_members\<close> is the loop of \<^verbatim>\<open>__read_zip\<close> with the test that follows it.
\<close>

fun read_file ::
    "nat \<Rightarrow> wkt_parser \<Rightarrow> filesystem \<Rightarrow> string \<Rightarrow> ((exn + string \<times> table) \<times> filesystem) option"
  and read_zip ::
    "nat \<Rightarrow> wkt_parser \<Rightarrow> filesystem \<Rightarrow> string \<Rightarrow> ((exn + string \<times> table) \<times> filesystem) option"
  and read_members ::
    "nat \<Rightarrow> wkt_parser \<Rightarrow> filesystem \<Rightarrow> string list \<Rightarrow> ((exn + string \<times> table) \<times> filesystem) option"
where
  "read_file 0 wkt fs filename = None"
| "read_file (Suc n) wkt fs filename =
     (let ext = get_extension filename in
      if ext \<noteq> ''.zip'' then Some (read_plain wkt fs filename ext, fs)
      else read_zip n wkt fs filename)"
| "read_zip n wkt fs filename =
     (case unzip fs filename of
        (Inl e, fs') \<Rightarrow> Some (Inl e, fs')
      | (Inr files, fs') \<Rightarrow> read_members n wkt fs' files)"
| "read_members n wkt fs [] = Some (Inl (Exn FileNotFoundError ''No file found''), fs)"
| "read_members n wkt fs (file # files) =
     (case read_file n wkt fs file of
        None \<Rightarrow> None
      | Some (Inr r, fs') \<Rightarrow> Some (Inr r, fs')
      | Some (Inl e, fs') \<Rightarrow> read_members n wkt fs' files)"

text \<open>\<^verbatim>\<open>self.__read_file(infile)\<close>: anything but a string fails in \<^verbatim>\<open>os.path.splitext\<close>.\<close>

definition read_infile ::
  "nat \<Rightarrow> wkt_parser \<Rightarrow> filesystem \<Rightarrow> data \<Rightarrow> ((exn + string \<times> table) \<times> filesystem) option" where
  "read_infile n wkt fs infile =
     (case infile of
        Filename f \<Rightarrow> read_file n wkt fs f
      | _ \<Rightarrow> Some (Inl (Exn TypeError ''expected str, bytes or os.PathLike object''), fs))"

subsection \<open>The infile and outfile setters\<close>

type_synonym world = "extract_table \<times> filesystem"

definition infile_set ::
  "nat \<Rightarrow> wkt_parser \<Rightarrow> data option \<Rightarrow> world \<Rightarrow> ((exn + unit) \<times> world) option" where
  "infile_set n wkt infile w =
     (let s = fst w; fs = snd w in
      case infile of
        None \<Rightarrow> Some (Inr (), w)
      | Some src \<Rightarrow>
          if et_infile s \<noteq> None
          then Some (Inl (Exn Exception ''Infile {} is already set''), w)
          else
            (case read_infile n wkt fs src of
               None \<Rightarrow> None
             | Some (Inr (name, t), fs') \<Rightarrow>
                 Some (Inr (), (s\<lparr>et_infile := Some name, et_table := Some t\<rparr>, fs'))
             | Some (Inl _, fs') \<Rightarrow>
                (case GeoDataFrame src of
                   Inr t \<Rightarrow>
                     Some (Inr (),
                           (s\<lparr>et_infile := None, et_table := Some (geometrize_gdf wkt t)\<rparr>, fs'))
                 | Inl e \<Rightarrow>
                     Some (Inl (ExnFrom FileNotFoundError ''{} not found. {}'' e),
                           (s\<lparr>et_infile := None\<rparr>, fs')))))"

definition outfile_set :: "pyobj \<Rightarrow> extract_table \<Rightarrow> (exn + unit) \<times> extract_table" where
  "outfile_set filename s =
     (case pathlib_Path filename of
        Inr p \<Rightarrow> (Inr (), s\<lparr>et_outfile := Some p\<rparr>)
      | Inl _ \<Rightarrow> (Inr (), s\<lparr>et_outfile := None\<rparr>))"

section \<open>Writing\<close>

text \<open>
  A frame written with \<^verbatim>\<open>index=False\<close> loses its index: read back, it is numbered.
  A writer is taken to fail only where the file cannot be written; what a writer refuses
  because of the frame (\<^verbatim>\<open>to_json\<close> on an index with duplicate labels), and how a format
  stores the frame, is not modelled: the file holds the frame handed to the writer.
\<close>

definition drop_index :: "table \<Rightarrow> table" where
  "drop_index t =
     t\<lparr>index_name := None,
       rows := map (\<lambda>klr. (Num (int (fst klr)), snd (snd klr))) (enumerate 0 (rows t))\<rparr>"

definition extract_to_inferred_file ::
  "extract_table \<Rightarrow> table \<Rightarrow> string \<Rightarrow> string \<Rightarrow> filesystem \<Rightarrow> exn + filesystem" where
  "extract_to_inferred_file s df filename ext fs =
     (let has_index = (et_column s \<noteq> None);
          indexed = (if has_index then df else drop_index df)
      in if ext = ''.csv'' then write_file fs filename (Tabular CSV indexed)
         else if ext = ''.pkl'' \<or> ext = ''.bz2'' \<or> ext = ''.zip'' \<or> ext = ''.gzip'' \<or> ext = ''.xz''
           then write_file fs filename (Tabular Pickle df)
         else if ext = ''.xlsx'' then write_file fs filename (Tabular Excel indexed)
         else if ext = ''.html''
           then write_file fs filename
                  (Tabular HTML (if has_index then df else df\<lparr>index_name := None\<rparr>))
         else if ext = ''.json'' then write_file fs filename (Tabular JSON df)
         else if ext = ''.tex'' then write_file fs filename (Tabular Latex indexed)
         else if ext = ''.md'' then write_file fs filename (Tabular Markdown df)
         else write_file fs filename (Tabular Text df))"

text \<open>The body of the \<^verbatim>\<open>try\<close> block of \<^verbatim>\<open>extract_to_file\<close>.\<close>

definition write_extracted ::
  "extract_table \<Rightarrow> table \<Rightarrow> bool \<Rightarrow> string \<Rightarrow> string option \<Rightarrow> filesystem \<Rightarrow> exn + filesystem" where
  "write_extracted s gdf is_geometric filename driver fs =
     (let ext = get_extension filename in
      if is_geometric \<and> ext = ''.shp''
        then write_file fs filename (Tabular (Vector ''ESRI Shapefile'') gdf)
      else if is_geometric \<and> ext = ''.geojson''
        then write_file fs filename (Tabular (Vector ''GeoJSON'') gdf)
      else if is_geometric \<and> ext = ''.gpkg''
        then write_file fs filename (Tabular (Vector ''GPKG'') gdf)
      else if is_geometric \<and> driver \<noteq> None
        then (case driver of
                Some d \<Rightarrow> write_file fs filename (Tabular (Vector d) gdf)
              | None \<Rightarrow> Inl (Exn ValueError ''driver''))
      else if is_geometric then extract_to_inferred_file s gdf filename ext fs
      else (case drop_column gdf ''geometry'' of
              Inl e \<Rightarrow> Inl e
            | Inr df \<Rightarrow> extract_to_inferred_file s df filename ext fs))"

text \<open>
  \<^verbatim>\<open>extract_to_file\<close>. The handler of a failed write calls
  \<^verbatim>\<open>os.makedirs(self.__outfile.parent)\<close>, on the stored \<^verbatim>\<open>outfile\<close> attribute, and then
  the whole method again; whatever goes wrong in the handler, an attribute that is
  \<^verbatim>\<open>None\<close> included, becomes the \<^verbatim>\<open>RuntimeError\<close> that carries the first exception.
\<close>

text \<open>
  The file name the method writes to: its argument, or else the stored \<^verbatim>\<open>outfile\<close>.
\<close>

definition destination :: "extract_table \<Rightarrow> string option \<Rightarrow> string option" where
  "destination s outfile =
     (case outfile of
        None \<Rightarrow> map_option str_of_path (et_outfile s)
      | Some f \<Rightarrow> Some f)"

function extract_to_file ::
  "wkt_parser \<Rightarrow> extract_table \<Rightarrow> string option \<Rightarrow> string option \<Rightarrow> filesystem
     \<Rightarrow> (exn + unit) \<times> filesystem" where
  "extract_to_file wkt s outfile driver fs =
     (case extract_gdf wkt s of
        Inl e \<Rightarrow> (Inl e, fs)
      | Inr gdf \<Rightarrow>
         (case has_spatial_data gdf of
            Inl e \<Rightarrow> (Inl e, fs)
          | Inr is_geometric \<Rightarrow>
             (case destination s outfile of
                None \<Rightarrow>
                  (case (if is_geometric then Inr gdf else drop_column gdf ''geometry'') of
                     Inl e \<Rightarrow> (Inl e, fs)
                   | Inr shown \<Rightarrow> (Inr (), fs\<lparr>fs_stdout := fs_stdout fs @ [shown]\<rparr>))
              | Some filename \<Rightarrow>
                 (case write_extracted s gdf is_geometric filename driver fs of
                    Inr fs' \<Rightarrow> (Inr (), fs')
                  | Inl e \<Rightarrow>
                     (case et_outfile s of
                        None \<Rightarrow> (Inl (ExnFrom RuntimeError ''Extraction failed:'' e), fs)
                      | Some p \<Rightarrow>
                         (case makedirs fs (parent p) of
                            Inl _ \<Rightarrow> (Inl (ExnFrom RuntimeError ''Extraction failed:'' e), fs)
                          | Inr fs' \<Rightarrow>
                             (case extract_to_file wkt s outfile driver fs' of
                                (Inr u, fs'') \<Rightarrow> (Inr u, fs'')
                              | (Inl _, fs'') \<Rightarrow>
                                  (Inl (ExnFrom RuntimeError ''Extraction failed:'' e), fs''))))))))"
  by pat_completeness auto

lemma makedirs_is_dir:
  assumes "makedirs fs d = Inr fs'"
  shows "\<not> is_dir fs d" and "is_dir fs' d"
proof -
  from assms show nd: "\<not> is_dir fs d"
    by (auto simp: makedirs_def split: if_splits)
  then have "d \<noteq> []" by (auto simp: is_dir_def)
  then have "d \<in> set (ancestors d)"
    by (cases d) (auto simp: ancestors_def image_iff intro!: bexI [where x = "length d"])
  with nd assms show "is_dir fs' d"
    by (auto simp: makedirs_def ensure_dirs_def is_dir_def split: if_splits)
qed

termination extract_to_file
  apply (relation "measure (\<lambda>(wkt, s, outfile, driver, fs).
          case et_outfile s of None \<Rightarrow> 0 | Some p \<Rightarrow> if is_dir fs (parent p) then 0 else 1)")
   apply simp
  apply (simp add: makedirs_is_dir)
  done

declare extract_to_file.simps [simp del]

section \<open>Listing\<close>

definition list_columns :: "extract_table \<Rightarrow> exn + string list" where
  "list_columns s =
     (case et_table s of
        None \<Rightarrow> Inl (Exn RuntimeError ''Unable to find tabular data to extract'')
      | Some t \<Rightarrow>
         (case has_spatial_data t of
            Inl e \<Rightarrow> Inl e
          | Inr spatial \<Rightarrow>
              if spatial then Inr (columns t)
              else Inr (filter (\<lambda>c. c \<noteq> ''geometry'') (columns t))))"

text \<open>\<^verbatim>\<open>series.unique()\<close>: the first occurrence of every value, in order.\<close>

definition uniq :: "cell list \<Rightarrow> cell list" where
  "uniq cs = rev (remdups (rev cs))"

definition list_values :: "extract_table \<Rightarrow> string option \<Rightarrow> bool \<Rightarrow> exn + cell list" where
  "list_values s column unique =
     (case et_table s of
        None \<Rightarrow> Inl (Exn RuntimeError ''Unable to find tabular data to extract'')
      | Some t \<Rightarrow>
         (case column of
            Some c \<Rightarrow>
              (case getitem t c of
                 Inl e \<Rightarrow> Inl (Exn KeyError ''Unable to find column {}'')
               | Inr col \<Rightarrow> Inr (if unique then uniq col else col))
          | None \<Rightarrow>
              (case et_column s of
                 Some c \<Rightarrow>
                   (case getitem t c of
                      Inl e \<Rightarrow> Inl e
                    | Inr col \<Rightarrow> Inr (if unique then uniq col else col))
               | None \<Rightarrow> Inl (Exn RuntimeError ''No initialized column exists''))))"

section \<open>Construction and the reachable states\<close>

text \<open>
  \<^verbatim>\<open>__init__\<close> assigns the blank attributes and \<^verbatim>\<open>__sanitize_init\<close> runs the four
  setters in turn; an exception of any of them ends the construction with an
  \<^verbatim>\<open>AttributeError\<close>, and no object is returned.
\<close>

definition sanitize_init ::
  "nat \<Rightarrow> wkt_parser \<Rightarrow> data option \<Rightarrow> pyobj \<Rightarrow> string option \<Rightarrow> filter_value option
     \<Rightarrow> world \<Rightarrow> ((exn + unit) \<times> world) option" where
  "sanitize_init n wkt infile outfile column v w =
     (case infile_set n wkt infile w of
        None \<Rightarrow> None
      | Some (Inl e, w1) \<Rightarrow> Some (Inl (ExnFrom AttributeError ''Initialization failed. {}'' e), w1)
      | Some (Inr _, w1) \<Rightarrow>
         (case outfile_set outfile (fst w1) of
            (Inl e, s2) \<Rightarrow>
              Some (Inl (ExnFrom AttributeError ''Initialization failed. {}'' e), (s2, snd w1))
          | (Inr _, s2) \<Rightarrow>
             (case column_set column s2 of
                (Inl e, s3) \<Rightarrow>
                  Some (Inl (ExnFrom AttributeError ''Initialization failed. {}'' e), (s3, snd w1))
              | (Inr _, s3) \<Rightarrow>
                 (case value_set v s3 of
                    (Inl e, s4) \<Rightarrow>
                      Some (Inl (ExnFrom AttributeError ''Initialization failed. {}'' e),
                            (s4, snd w1))
                  | (Inr _, s4) \<Rightarrow> Some (Inr (), (s4, snd w1))))))"

definition init ::
  "nat \<Rightarrow> wkt_parser \<Rightarrow> data option \<Rightarrow> pyobj \<Rightarrow> string option \<Rightarrow> filter_value option
     \<Rightarrow> filesystem \<Rightarrow> ((exn + extract_table) \<times> filesystem) option" where
  "init n wkt infile outfile column v fs =
     (case sanitize_init n wkt infile outfile column v (blank, fs) of
        None \<Rightarrow> None
      | Some (Inl e, w) \<Rightarrow> Some (Inl e, snd w)
      | Some (Inr _, w) \<Rightarrow> Some (Inr (fst w), snd w))"

text \<open>
  The operations on an object, and the state each leaves behind, whether it returned or
  raised. \<^verbatim>\<open>extract\<close>, \<^verbatim>\<open>list_columns\<close> and \<^verbatim>\<open>list_values\<close> assign nothing;
  \<^verbatim>\<open>extract_to_file\<close> changes the file system only.
\<close>

datatype operation =
    Load "data option"
  | SetOutfile pyobj
  | SetColumn "string option"
  | SetValue "filter_value option"
  | Extract
  | ExtractToFile "string option" "string option"
  | ListColumns
  | ListValues "string option" bool

fun run :: "nat \<Rightarrow> wkt_parser \<Rightarrow> operation \<Rightarrow> world \<Rightarrow> world option" where
  "run n wkt (Load infile) w = map_option snd (infile_set n wkt infile w)"
| "run n wkt (SetOutfile f) w = Some (snd (outfile_set f (fst w)), snd w)"
| "run n wkt (SetColumn c) w = Some (snd (column_set c (fst w)), snd w)"
| "run n wkt (SetValue v) w = Some (snd (value_set v (fst w)), snd w)"
| "run n wkt Extract w = (case extract_gdf wkt (fst w) of _ \<Rightarrow> Some w)"
| "run n wkt (ExtractToFile outfile driver) w =
     Some (fst w, snd (extract_to_file wkt (fst w) outfile driver (snd w)))"
| "run n wkt ListColumns w = (case list_columns (fst w) of _ \<Rightarrow> Some w)"
| "run n wkt (ListValues c u) w = (case list_values (fst w) c u of _ \<Rightarrow> Some w)"

inductive reachable :: "wkt_parser \<Rightarrow> world \<Rightarrow> bool" for wkt :: wkt_parser where
  constructed:
    "init n wkt infile outfile column v fs = Some (Inr s, fs') \<Longrightarrow> reachable wkt (s, fs')"
| step:
    "reachable wkt w \<Longrightarrow> run n wkt opn w = Some w' \<Longrightarrow> reachable wkt w'"

text \<open>The frame \<^verbatim>\<open>__reindex\<close> starts from: the stored selection when a value is set.\<close>

definition filtered_table :: "extract_table \<Rightarrow> table option" where
  "filtered_table s = (if et_value s \<noteq> None then et_extracted s else et_table s)"

definition state_ok :: "extract_table \<Rightarrow> bool" where
  "state_ok s =
     ((et_value s \<noteq> None \<longrightarrow> et_column s \<noteq> None)
      \<and> (et_column s \<noteq> None \<longrightarrow> et_table s \<noteq> None))"

section \<open>Example data\<close>

text \<open>A parser that accepts no text, the table of the specification's example, an empty
  file system, and an object that holds the table.\<close>

definition no_wkt :: wkt_parser where
  "no_wkt s = None"

definition demo :: table where
  "demo = \<lparr>columns = [''id'', ''state'', ''value''], index_name = None,
           rows = [(Num 0, [Str ''a'', Str ''CA'', Num 1]),
                   (Num 1, [Str ''b'', Str ''CA'', Num 2]),
                   (Num 2, [Str ''c'', Str ''NY'', Num 3])]\<rparr>"

definition fs0 :: filesystem where
  "fs0 = \<lparr>fs_dirs = [], fs_files = [], fs_denied = [], fs_stdout = []\<rparr>"

definition loaded :: extract_table where
  "loaded = blank\<lparr>et_table := Some (geometrize_gdf no_wkt demo)\<rparr>"

text \<open>
  The object of the specification's example: the table in memory, the column
  \<^verbatim>\<open>state\<close> and the value \<^verbatim>\<open>CA\<close>; and the same object after the value \<^verbatim>\<open>TX\<close>,
  which no row has, was assigned to it.
\<close>

definition chosen :: extract_table where
  "chosen = snd (value_set (Some (Single ''CA'')) (snd (column_set (Some ''state'') loaded)))"

definition rejected :: extract_table where
  "rejected = snd (value_set (Some (Single ''TX'')) chosen)"

text \<open>A table with a column named by the empty string, and an object that holds it.\<close>

definition unnamed :: table where
  "unnamed = \<lparr>columns = ['''', ''n''], index_name = None,
              rows = [(Num 0, [Str ''x'', Num 1]), (Num 1, [Str ''y'', Num 2])]\<rparr>"

definition unnamed_loaded :: extract_table where
  "unnamed_loaded = blank\<lparr>et_table := Some (geometrize_gdf no_wkt unnamed)\<rparr>"

text \<open>
  The object of the example after a second load, of the table above from memory: only
  the table differs.
\<close>

definition reloaded :: extract_table where
  "reloaded = chosen\<lparr>et_table := Some (geometrize_gdf no_wkt unnamed)\<rparr>"

text \<open>A file system whose only file is an archive without members.\<close>

definition fs_empty_zip :: filesystem where
  "fs_empty_zip = fs0\<lparr>fs_files := [([''a.zip''], Archive [])]\<rparr>"

text \<open>A file system with the example table as a CSV file, and the object loaded from it.\<close>

definition fs_csv :: filesystem where
  "fs_csv = fs0\<lparr>fs_files := [([''in.csv''], Tabular CSV demo)]\<rparr>"

definition from_file :: extract_table where
  "from_file = loaded\<lparr>et_infile := Some ''in.csv''\<rparr>"

section \<open>Properties\<close>

subsection \<open>Column lookup\<close>

lemma position_None_iff: "position c xs = None \<longleftrightarrow> c \<notin> set xs"
  by (induction xs) auto

lemma position_Some_ex: "c \<in> set xs \<Longrightarrow> \<exists>i. position c xs = Some i"
  using position_None_iff [of c xs] by (cases "position c xs") auto

lemma loaded_table: "et_table loaded = Some (geometrize_gdf no_wkt demo)"
  by (simp add: loaded_def)

lemma loaded_columns:
  "columns (geometrize_gdf no_wkt demo) = [''id'', ''state'', ''value'', ''geometry'']"
  by code_simp

subsection \<open>The column setter\<close>

lemma column_set_found:
  assumes "et_table s = Some t" and "c \<in> set (columns t)"
  shows "\<exists>d. getitem t c = Inr d \<and>
             column_set (Some c) s
               = (Inr (), s\<lparr>et_coldata := Some d, et_column := Some c, et_value := None\<rparr>)"
proof -
  from position_Some_ex [OF assms(2)] obtain i where i: "position c (columns t) = Some i" ..
  define d where "d = map (\<lambda>lr. cell_at (snd lr) i) (rows t)"
  have g: "getitem t c = Inr d"
    by (simp add: getitem_def i d_def)
  have "column_set (Some c) s
          = (Inr (), s\<lparr>et_coldata := Some d, et_column := Some c, et_value := None\<rparr>)"
    by (simp add: column_set_def subscript_def assms(1) g)
  with g show ?thesis by blast
qed

lemma column_set_missing:
  assumes "et_table s = Some t" and "c \<notin> set (columns t)"
  shows "column_set (Some c) s
           = (Inl (ExnFrom KeyError ''Column not found: {}'' (Exn KeyError c)), s)"
proof -
  from assms(2) have "position c (columns t) = None" by (simp add: position_None_iff)
  with assms(1) show ?thesis
    by (simp add: column_set_def subscript_def getitem_def)
qed

text \<open>
  Claim C3. On an object with a loaded table, setting the column to the name of an existing
  column succeeds, stores the name and clears the value (the column's cells are cached as
  well, nothing else changes); setting it to a name that is no column of the table raises
  the \<^verbatim>\<open>KeyError\<close> "Column not found" and leaves the whole object, column and value
  included, as it was.
\<close>

theorem column_set_spec:
  assumes "et_table s = Some t"
  shows "(c \<in> set (columns t) \<longrightarrow>
            (\<exists>d. getitem t c = Inr d \<and>
                 column_set (Some c) s
                   = (Inr (), s\<lparr>et_coldata := Some d, et_column := Some c, et_value := None\<rparr>)))
       \<and> (c \<notin> set (columns t) \<longrightarrow>
            column_set (Some c) s
              = (Inl (ExnFrom KeyError ''Column not found: {}'' (Exn KeyError c)), s))"
proof (intro conjI impI)
  assume "c \<in> set (columns t)"
  with assms show "\<exists>d. getitem t c = Inr d \<and>
      column_set (Some c) s
        = (Inr (), s\<lparr>et_coldata := Some d, et_column := Some c, et_value := None\<rparr>)"
    by (rule column_set_found)
next
  assume "c \<notin> set (columns t)"
  with assms show "column_set (Some c) s
      = (Inl (ExnFrom KeyError ''Column not found: {}'' (Exn KeyError c)), s)"
    by (rule column_set_missing)
qed

theorem column_set_spec_witness:
  "et_table loaded = Some (geometrize_gdf no_wkt demo)
   \<and> ''state'' \<in> set (columns (geometrize_gdf no_wkt demo))
   \<and> ''county'' \<notin> set (columns (geometrize_gdf no_wkt demo))
   \<and> fst (column_set (Some ''state'') loaded) = Inr ()
   \<and> et_column (snd (column_set (Some ''state'') loaded)) = Some ''state''
   \<and> et_value (snd (column_set (Some ''state'') loaded)) = None
   \<and> column_set (Some ''county'') loaded
        = (Inl (ExnFrom KeyError ''Column not found: {}'' (Exn KeyError ''county'')), loaded)"
  using column_set_spec [OF loaded_table, of "''state''"]
        column_set_spec [OF loaded_table, of "''county''"]
  by (auto simp: loaded_table loaded_columns)

subsection \<open>The outfile setter\<close>

text \<open>
  Claim C9. The outfile setter never raises. Whatever it is handed, it returns normally;
  when \<^verbatim>\<open>pathlib.Path\<close> accepts the argument the attribute becomes that path, and when
  it does not (as for \<^verbatim>\<open>None\<close>) the attribute becomes \<^verbatim>\<open>None\<close>, whatever it was
  before. Nothing else of the object changes.
\<close>

theorem outfile_set_never_raises:
  "fst (outfile_set x s) = Inr ()
   \<and> (\<forall>p. pathlib_Path x = Inr p \<longrightarrow> snd (outfile_set x s) = s\<lparr>et_outfile := Some p\<rparr>)
   \<and> ((\<forall>p. pathlib_Path x \<noteq> Inr p) \<longrightarrow> snd (outfile_set x s) = s\<lparr>et_outfile := None\<rparr>)
   \<and> snd (outfile_set PyNone s) = s\<lparr>et_outfile := None\<rparr>"
  by (cases "pathlib_Path x") (auto simp: outfile_set_def)

theorem outfile_set_never_raises_witness:
  "pathlib_Path (PyStr ''out/result.csv'') = Inr [''out'', ''result.csv'']
   \<and> outfile_set (PyStr ''out/result.csv'') loaded
        = (Inr (), loaded\<lparr>et_outfile := Some [''out'', ''result.csv'']\<rparr>)
   \<and> (\<forall>p. pathlib_Path (PyInt 7) \<noteq> Inr p)
   \<and> outfile_set (PyInt 7) (loaded\<lparr>et_outfile := Some [''out'', ''result.csv'']\<rparr>)
        = (Inr (), loaded\<lparr>et_outfile := None\<rparr>)"
proof -
  have p: "pathlib_Path (PyStr ''out/result.csv'') = Inr [''out'', ''result.csv'']"
    by code_simp
  have q: "\<forall>p. pathlib_Path (PyInt 7) \<noteq> Inr p" by simp
  from outfile_set_never_raises [of "PyStr ''out/result.csv''" loaded] p
  have a: "outfile_set (PyStr ''out/result.csv'') loaded
        = (Inr (), loaded\<lparr>et_outfile := Some [''out'', ''result.csv'']\<rparr>)"
    by (metis prod.collapse)
  from outfile_set_never_raises
         [of "PyInt 7" "loaded\<lparr>et_outfile := Some [''out'', ''result.csv'']\<rparr>"] q
  have b: "outfile_set (PyInt 7) (loaded\<lparr>et_outfile := Some [''out'', ''result.csv'']\<rparr>)
        = (Inr (), loaded\<lparr>et_outfile := None\<rparr>)"
    by (metis (no_types, lifting) prod.collapse extract_table.update_convs(2)
          extract_table.surjective)
  from p q a b show ?thesis by blast
qed

subsection \<open>A column named by the empty string\<close>

lemma unnamed_columns: "columns (geometrize_gdf no_wkt unnamed) = ['''', ''n'', ''geometry'']"
  by code_simp

lemma unnamed_loaded_table: "et_table unnamed_loaded = Some (geometrize_gdf no_wkt unnamed)"
  by (simp add: unnamed_loaded_def)

text \<open>
  Claim C10. When the loaded table has a column whose name is the empty string, setting the
  column to the empty string succeeds and stores it, and \<^verbatim>\<open>extract\<close> then returns the
  loaded table as it is, as if no column were set: the empty string is false in the test
  \<^verbatim>\<open>elif self.column\<close>.
\<close>

theorem empty_column_name_is_ignored:
  assumes "et_table s = Some t" and "[] \<in> set (columns t)"
  shows "fst (column_set (Some []) s) = Inr ()
         \<and> et_column (snd (column_set (Some []) s)) = Some []
         \<and> extract_gdf wkt (snd (column_set (Some []) s)) = Inr t"
proof -
  from column_set_found [OF assms]
  obtain d where "column_set (Some []) s
      = (Inr (), s\<lparr>et_coldata := Some d, et_column := Some [], et_value := None\<rparr>)"
    by blast
  with assms(1) show ?thesis by (simp add: extract_gdf_def)
qed

theorem empty_column_name_is_ignored_witness:
  "et_table unnamed_loaded = Some (geometrize_gdf no_wkt unnamed)
   \<and> [] \<in> set (columns (geometrize_gdf no_wkt unnamed))
   \<and> fst (column_set (Some []) unnamed_loaded) = Inr ()
   \<and> et_column (snd (column_set (Some []) unnamed_loaded)) = Some []
   \<and> extract_gdf no_wkt (snd (column_set (Some []) unnamed_loaded))
        = Inr (geometrize_gdf no_wkt unnamed)"
proof -
  have c: "[] \<in> set (columns (geometrize_gdf no_wkt unnamed))"
    by (simp add: unnamed_columns)
  from empty_column_name_is_ignored [OF unnamed_loaded_table c, of no_wkt] c unnamed_loaded_table
  show ?thesis by blast
qed

subsection \<open>The invariant of the attributes\<close>

lemma blank_ok: "state_ok blank"
  by (simp add: state_ok_def blank_def)

lemma column_set_ok: "state_ok s \<Longrightarrow> state_ok (snd (column_set c s))"
  by (auto simp: column_set_def subscript_def state_ok_def split: option.splits sum.splits)

lemma value_set_ok: "state_ok s \<Longrightarrow> state_ok (snd (value_set v s))"
  by (auto simp: value_set_def state_ok_def split: option.splits sum.splits)

lemma outfile_set_ok: "state_ok s \<Longrightarrow> state_ok (snd (outfile_set f s))"
  by (auto simp: outfile_set_def state_ok_def split: sum.splits)

lemma infile_set_ok:
  assumes "infile_set n wkt infile w = Some (r, w')" and "state_ok (fst w)"
  shows "state_ok (fst w')"
  using assms
  by (auto simp: infile_set_def state_ok_def Let_def
           split: option.splits sum.splits if_splits prod.splits)

lemma sanitize_init_ok:
  assumes "sanitize_init n wkt infile outfile column v w = Some (r, w')" and "state_ok (fst w)"
  shows "state_ok (fst w')"
proof -
  from assms(1) obtain r1 w1 where i: "infile_set n wkt infile w = Some (r1, w1)"
    by (auto simp: sanitize_init_def split: option.splits)
  from infile_set_ok [OF i assms(2)] have o1: "state_ok (fst w1)" .
  then have o2: "state_ok (snd (outfile_set outfile (fst w1)))" by (rule outfile_set_ok)
  then have o3: "state_ok (snd (column_set column (snd (outfile_set outfile (fst w1)))))"
    by (rule column_set_ok)
  then have o4: "state_ok (snd (value_set v (snd (column_set column
                    (snd (outfile_set outfile (fst w1)))))))"
    by (rule value_set_ok)
  from assms(1) i o1 o2 o3 o4 show ?thesis
    by (auto simp: sanitize_init_def split: sum.splits prod.splits)
qed

lemma init_ok:
  assumes "init n wkt infile outfile column v fs = Some (Inr s, fs')"
  shows "state_ok s"
proof -
  from assms obtain r w where
    s: "sanitize_init n wkt infile outfile column v (blank, fs) = Some (r, w)" and "fst w = s"
    by (auto simp: init_def split: option.splits sum.splits prod.splits)
  from sanitize_init_ok [OF s] blank_ok \<open>fst w = s\<close> show ?thesis by simp
qed

lemma run_ok:
  assumes "run n wkt opn w = Some w'" and "state_ok (fst w)"
  shows "state_ok (fst w')"
proof (cases opn)
  case (Load infile)
  with assms(1) obtain r where "infile_set n wkt infile w = Some (r, w')"
    by (cases "infile_set n wkt infile w") auto
  from infile_set_ok [OF this assms(2)] show ?thesis .
next
  case (SetOutfile f)
  with assms show ?thesis by (auto intro: outfile_set_ok)
next
  case (SetColumn c)
  with assms show ?thesis by (auto intro: column_set_ok)
next
  case (SetValue v)
  with assms show ?thesis by (auto intro: value_set_ok)
next
  case Extract
  with assms show ?thesis by auto
next
  case (ExtractToFile outfile driver)
  with assms show ?thesis by auto
next
  case ListColumns
  with assms show ?thesis by auto
next
  case (ListValues c u)
  with assms show ?thesis by auto
qed

lemma reachable_ok: "reachable wkt w \<Longrightarrow> state_ok (fst w)"
proof (induction rule: reachable.induct)
  case (constructed n infile outfile column v fs s fs')
  then show ?case by (simp add: init_ok)
next
  case (step w n opn w')
  then show ?case using run_ok by blast
qed

lemma init_chosen:
  "init 0 no_wkt (Some (Frame demo)) PyNone (Some ''state'') (Some (Single ''CA'')) fs0
     = Some (Inr chosen, fs0)"
  by code_simp

lemma reachable_chosen: "reachable no_wkt (chosen, fs0)"
  using init_chosen by (rule reachable.constructed)

lemma run_rejected:
  "run 0 no_wkt (SetValue (Some (Single ''TX''))) (chosen, fs0) = Some (rejected, fs0)"
  by (simp add: rejected_def)

lemma reachable_rejected: "reachable no_wkt (rejected, fs0)"
  using reachable_chosen run_rejected by (rule reachable.step)

text \<open>
  Claim C8. In every state of an object (after its construction and after any sequence of
  the operations load, the three other setters, \<^verbatim>\<open>extract\<close>, \<^verbatim>\<open>extract_to_file\<close>,
  \<^verbatim>\<open>list_columns\<close> and \<^verbatim>\<open>list_values\<close>, whether they return or raise) a value that is
  set comes with a column that is set, and a column that is set comes with a loaded table.
  The construction establishes this and every operation preserves it.
\<close>

theorem state_ok_invariant:
  "(init n wkt infile outfile column v fs = Some (Inr s, fs') \<longrightarrow> state_ok s)
   \<and> (state_ok (fst w) \<and> run n wkt opn w = Some w' \<longrightarrow> state_ok (fst w'))
   \<and> (reachable wkt w \<longrightarrow> state_ok (fst w))"
proof (intro conjI impI)
  assume "init n wkt infile outfile column v fs = Some (Inr s, fs')"
  then show "state_ok s" by (rule init_ok)
next
  assume "state_ok (fst w) \<and> run n wkt opn w = Some w'"
  then show "state_ok (fst w')" using run_ok by blast
next
  assume "reachable wkt w"
  then show "state_ok (fst w)" by (rule reachable_ok)
qed

theorem state_ok_invariant_witness:
  "init 0 no_wkt (Some (Frame demo)) PyNone (Some ''state'') (Some (Single ''CA'')) fs0
     = Some (Inr chosen, fs0)
   \<and> state_ok chosen
   \<and> run 0 no_wkt (SetValue (Some (Single ''TX''))) (chosen, fs0) = Some (rejected, fs0)
   \<and> state_ok rejected
   \<and> reachable no_wkt (rejected, fs0)
   \<and> et_value rejected \<noteq> None \<and> et_column rejected \<noteq> None \<and> et_table rejected \<noteq> None"
proof -
  have a: "state_ok chosen"
    using state_ok_invariant [where n = 0 and wkt = no_wkt and infile = "Some (Frame demo)"
            and outfile = PyNone and column = "Some ''state''" and v = "Some (Single ''CA'')"
            and fs = fs0 and s = chosen and fs' = fs0] init_chosen
    by blast
  have b: "state_ok rejected"
    using state_ok_invariant [where w = "(chosen, fs0)" and n = 0 and wkt = no_wkt
            and opn = "SetValue (Some (Single ''TX''))" and w' = "(rejected, fs0)"] a run_rejected
    by simp
  have c: "state_ok rejected"
    using state_ok_invariant [where wkt = no_wkt and w = "(rejected, fs0)"] reachable_rejected
    by simp
  have d: "et_value rejected \<noteq> None" by code_simp
  with c have "et_column rejected \<noteq> None \<and> et_table rejected \<noteq> None"
    by (simp add: state_ok_def)
  with a b d init_chosen run_rejected reachable_rejected show ?thesis by blast
qed

subsection \<open>extract without a table or without a column\<close>

lemma init_loaded:
  "init 0 no_wkt (Some (Frame demo)) PyNone None None fs0 = Some (Inr loaded, fs0)"
  by code_simp

text \<open>
  Claim C4. \<^verbatim>\<open>extract\<close> raises the \<^verbatim>\<open>RuntimeError\<close> "Unable to find tabular data to
  extract" whenever no table is loaded. When a table is loaded and no column is set it
  returns the loaded table itself, not reindexed; in every reachable state without a column
  no value is set either, so that the filtered table is the loaded one.
\<close>

theorem extract_without_table_or_column:
  "(et_table s = None \<longrightarrow>
      extract_gdf wkt s = Inl (Exn RuntimeError ''Unable to find tabular data to extract''))
   \<and> (et_table s = Some t \<and> et_column s = None \<longrightarrow> extract_gdf wkt s = Inr t)
   \<and> (reachable wkt (s, fs) \<and> et_table s = Some t \<and> et_column s = None \<longrightarrow>
        filtered_table s = Some t \<and> extract_gdf wkt s = Inr t)"
proof (intro conjI impI)
  assume "et_table s = None"
  then show "extract_gdf wkt s = Inl (Exn RuntimeError ''Unable to find tabular data to extract'')"
    by (simp add: extract_gdf_def)
next
  assume "et_table s = Some t \<and> et_column s = None"
  then show "extract_gdf wkt s = Inr t" by (simp add: extract_gdf_def)
next
  assume a: "reachable wkt (s, fs) \<and> et_table s = Some t \<and> et_column s = None"
  then have "state_ok s" using reachable_ok by fastforce
  with a have "et_value s = None" by (auto simp: state_ok_def)
  with a show "filtered_table s = Some t" by (simp add: filtered_table_def)
next
  assume "reachable wkt (s, fs) \<and> et_table s = Some t \<and> et_column s = None"
  then show "extract_gdf wkt s = Inr t" by (simp add: extract_gdf_def)
qed

theorem extract_without_table_or_column_witness:
  "et_table blank = None
   \<and> extract_gdf no_wkt blank = Inl (Exn RuntimeError ''Unable to find tabular data to extract'')
   \<and> reachable no_wkt (loaded, fs0)
   \<and> et_table loaded = Some (geometrize_gdf no_wkt demo) \<and> et_column loaded = None
   \<and> filtered_table loaded = Some (geometrize_gdf no_wkt demo)
   \<and> extract_gdf no_wkt loaded = Inr (geometrize_gdf no_wkt demo)"
proof -
  have b: "et_table blank = None" by (simp add: blank_def)
  have r: "reachable no_wkt (loaded, fs0)" using init_loaded by (rule reachable.constructed)
  have c: "et_column loaded = None" by (simp add: loaded_def blank_def)
  from extract_without_table_or_column [where s = blank and wkt = no_wkt] b
  have 1: "extract_gdf no_wkt blank
             = Inl (Exn RuntimeError ''Unable to find tabular data to extract'')" by blast
  from extract_without_table_or_column [where s = loaded and t = "geometrize_gdf no_wkt demo"
         and wkt = no_wkt and fs = fs0]
       r loaded_table c
  have 2: "filtered_table loaded = Some (geometrize_gdf no_wkt demo)
           \<and> extract_gdf no_wkt loaded = Inr (geometrize_gdf no_wkt demo)" by blast
  from b r c loaded_table 1 2 show ?thesis by blast
qed

subsection \<open>Loading twice\<close>

text \<open>
  After a load from a file name the stored \<^verbatim>\<open>infile\<close> is set, and the infile setter then
  rejects every origin other than \<^verbatim>\<open>None\<close> with the exception "Infile is already set",
  leaving the object, its table included, and the file system as they were, whatever
  bound the reader is given.
\<close>

lemma infile_set_already_set:
  "(et_infile s \<noteq> None \<longrightarrow>
      infile_set n wkt (Some src) (s, fs)
        = Some (Inl (Exn Exception ''Infile {} is already set''), (s, fs)))
   \<and> (infile_set n wkt (Some (Filename f)) (s, fs) = Some (Inr (), (s', fs')) \<longrightarrow>
        et_infile s' \<noteq> None \<and> et_table s' \<noteq> None)"
proof (intro conjI impI)
  assume "et_infile s \<noteq> None"
  then show "infile_set n wkt (Some src) (s, fs)
        = Some (Inl (Exn Exception ''Infile {} is already set''), (s, fs))"
    by (simp add: infile_set_def)
next
  assume a: "infile_set n wkt (Some (Filename f)) (s, fs) = Some (Inr (), (s', fs'))"
  then show "et_infile s' \<noteq> None"
    by (auto simp: infile_set_def read_infile_def
             split: if_splits option.splits sum.splits prod.splits)
next
  assume a: "infile_set n wkt (Some (Filename f)) (s, fs) = Some (Inr (), (s', fs'))"
  then show "et_table s' \<noteq> None"
    by (auto simp: infile_set_def read_infile_def
             split: if_splits option.splits sum.splits prod.splits)
qed

lemma infile_set_already_set_example:
  "infile_set 1 no_wkt (Some (Filename ''in.csv'')) (blank, fs_csv)
     = Some (Inr (), (from_file, fs_csv))
   \<and> et_infile from_file \<noteq> None \<and> et_table from_file \<noteq> None
   \<and> infile_set 1 no_wkt (Some (Frame unnamed)) (from_file, fs_csv)
        = Some (Inl (Exn Exception ''Infile {} is already set''), (from_file, fs_csv))
   \<and> infile_set 1 no_wkt (Some (Filename ''in.csv'')) (from_file, fs_csv)
        = Some (Inl (Exn Exception ''Infile {} is already set''), (from_file, fs_csv))"
proof -
  have l: "infile_set 1 no_wkt (Some (Filename ''in.csv'')) (blank, fs_csv)
             = Some (Inr (), (from_file, fs_csv))"
    by code_simp
  from infile_set_already_set [where n = 1 and wkt = no_wkt and f = "''in.csv''" and s = blank
         and fs = fs_csv and s' = from_file and fs' = fs_csv] l
  have i: "et_infile from_file \<noteq> None \<and> et_table from_file \<noteq> None" by blast
  from infile_set_already_set [where s = from_file and n = 1 and wkt = no_wkt
         and src = "Frame unnamed" and fs = fs_csv] i
  have a: "infile_set 1 no_wkt (Some (Frame unnamed)) (from_file, fs_csv)
        = Some (Inl (Exn Exception ''Infile {} is already set''), (from_file, fs_csv))" by blast
  from infile_set_already_set [where s = from_file and n = 1 and wkt = no_wkt
         and src = "Filename ''in.csv''" and fs = fs_csv] i
  have b: "infile_set 1 no_wkt (Some (Filename ''in.csv'')) (from_file, fs_csv)
        = Some (Inl (Exn Exception ''Infile {} is already set''), (from_file, fs_csv))" by blast
  from l i a b show ?thesis by blast
qed

text \<open>
  Claim C2 at a concrete input. The object of the example is constructed from the example
  table in memory, with the column \<^verbatim>\<open>state\<close> and the value \<^verbatim>\<open>CA\<close>: its table is
  loaded and its stored \<^verbatim>\<open>infile\<close> is \<^verbatim>\<open>None\<close>. The infile setter, handed a second
  table in memory, tests the stored \<^verbatim>\<open>infile\<close> only: it raises nothing and replaces the
  loaded table. Column, value and the stored selection stay as they were, although the
  new table has no column \<^verbatim>\<open>state\<close>, and \<^verbatim>\<open>extract\<close> still returns the two rows of the
  table that was replaced.
\<close>

theorem infile_set_from_memory_twice:
  "init 0 no_wkt (Some (Frame demo)) PyNone (Some ''state'') (Some (Single ''CA'')) fs0
     = Some (Inr chosen, fs0)
   \<and> et_table chosen = Some (geometrize_gdf no_wkt demo)
   \<and> et_infile chosen = None
   \<and> infile_set 0 no_wkt (Some (Frame unnamed)) (chosen, fs0) = Some (Inr (), (reloaded, fs0))
   \<and> et_table reloaded = Some (geometrize_gdf no_wkt unnamed)
   \<and> geometrize_gdf no_wkt unnamed \<noteq> geometrize_gdf no_wkt demo
   \<and> columns (geometrize_gdf no_wkt unnamed) = ['''', ''n'', ''geometry'']
   \<and> et_column reloaded = Some ''state''
   \<and> et_value reloaded = Some (Single ''CA'')
   \<and> et_extracted reloaded = et_extracted chosen
   \<and> extract_gdf no_wkt reloaded = extract_gdf no_wkt chosen
   \<and> map_sum id (\<lambda>g. (index_name g, map fst (rows g))) (extract_gdf no_wkt reloaded)
        = Inr (Some ''state'', [Str ''CA'', Str ''CA''])"
  by code_simp

subsection \<open>The value setter\<close>

lemma value_set_no_match:
  assumes "et_table s = Some t" and "et_column s = Some c"
    and "select_value t (Some c) v = Inr ex" and "empty_df ex"
  shows "value_set (Some v) s
           = (Inl (Exn KeyError ''Column {} has no value {}''), s\<lparr>et_extracted := Some ex\<rparr>)"
  using assms by (simp add: value_set_def)

lemma value_set_match:
  assumes "et_table s = Some t" and "et_column s = Some c"
    and "select_value t (Some c) v = Inr ex" and "\<not> empty_df ex"
  shows "value_set (Some v) s
           = (Inr (), s\<lparr>et_extracted := Some ex, et_value := Some v\<rparr>)"
  using assms by (simp add: value_set_def)

text \<open>
  Claim C1 at a concrete input. The object of the example holds the value \<^verbatim>\<open>CA\<close> and
  its selection of two rows. Assigning the value \<^verbatim>\<open>TX\<close>, which selects no row, raises
  the \<^verbatim>\<open>KeyError\<close> "Column has no value" and leaves the stored value at \<^verbatim>\<open>CA\<close>; but
  the stored selection, from which \<^verbatim>\<open>extract\<close> builds its result, is the empty one
  afterwards, and \<^verbatim>\<open>extract\<close> returns no row where it returned two.
\<close>

theorem value_set_no_match_overwrites_selection:
  "init 0 no_wkt (Some (Frame demo)) PyNone (Some ''state'') (Some (Single ''CA'')) fs0
     = Some (Inr chosen, fs0)
   \<and> et_value chosen = Some (Single ''CA'')
   \<and> map_option nrows (et_extracted chosen) = Some 2
   \<and> map_sum id nrows (extract_gdf no_wkt chosen) = Inr 2
   \<and> value_set (Some (Single ''TX'')) chosen
        = (Inl (Exn KeyError ''Column {} has no value {}''), rejected)
   \<and> et_value rejected = Some (Single ''CA'')
   \<and> map_option nrows (et_extracted rejected) = Some 0
   \<and> et_extracted rejected \<noteq> et_extracted chosen
   \<and> map_sum id nrows (extract_gdf no_wkt rejected) = Inr 0"
  by code_simp

subsection \<open>Reindexing by a column\<close>













subsection \<open>Writing to a missing directory\<close>

lemma extract_to_file_written:
  assumes "extract_gdf wkt s = Inr gdf" and "has_spatial_data gdf = Inr g"
    and "destination s outfile = Some filename"
    and "write_extracted s gdf g filename driver fs = Inr fs'"
  shows "extract_to_file wkt s outfile driver fs = (Inr (), fs')"
  using assms by (subst extract_to_file.simps) simp

lemma extract_to_file_no_stored_outfile:
  assumes "extract_gdf wkt s = Inr gdf" and "has_spatial_data gdf = Inr g"
    and "destination s outfile = Some filename"
    and "write_extracted s gdf g filename driver fs = Inl e"
    and "et_outfile s = None"
  shows "extract_to_file wkt s outfile driver fs
           = (Inl (ExnFrom RuntimeError ''Extraction failed:'' e), fs)"
  using assms by (subst extract_to_file.simps) simp

lemma extract_to_file_makedirs_fails:
  assumes "extract_gdf wkt s = Inr gdf" and "has_spatial_data gdf = Inr g"
    and "destination s outfile = Some filename"
    and "write_extracted s gdf g filename driver fs = Inl e"
    and "et_outfile s = Some p" and "makedirs fs (parent p) = Inl e'"
  shows "extract_to_file wkt s outfile driver fs
           = (Inl (ExnFrom RuntimeError ''Extraction failed:'' e), fs)"
  using assms by (subst extract_to_file.simps) simp

lemma makedirs_twice:
  assumes "makedirs fs d = Inr fs'"
  shows "makedirs fs' d = Inl (Exn FileExistsError (str_of_path d))"
  using makedirs_is_dir(2) [OF assms] by (simp add: makedirs_def)

lemma extract_to_file_retry:
  assumes x: "extract_gdf wkt s = Inr gdf" and g: "has_spatial_data gdf = Inr g"
    and d: "destination s outfile = Some filename"
    and w: "write_extracted s gdf g filename driver fs = Inl e"
    and p: "et_outfile s = Some p" and m: "makedirs fs (parent p) = Inr fs'"
  shows "extract_to_file wkt s outfile driver fs
           = (case write_extracted s gdf g filename driver fs' of
                Inr fs'' \<Rightarrow> (Inr (), fs'')
              | Inl e2 \<Rightarrow> (Inl (ExnFrom RuntimeError ''Extraction failed:'' e), fs'))"
proof (cases "write_extracted s gdf g filename driver fs'")
  case (Inr fs'')
  from extract_to_file_written [OF x g d Inr]
  have "extract_to_file wkt s outfile driver fs' = (Inr (), fs'')" .
  with x g d w p m Inr show ?thesis
    by (subst extract_to_file.simps) simp
next
  case (Inl e2)
  from extract_to_file_makedirs_fails [OF x g d Inl p makedirs_twice [OF m]]
  have "extract_to_file wkt s outfile driver fs'
          = (Inl (ExnFrom RuntimeError ''Extraction failed:'' e2), fs')" .
  with x g d w p m Inl show ?thesis
    by (subst extract_to_file.simps) simp
qed

lemma extract_loaded: "extract_gdf no_wkt loaded = Inr (geometrize_gdf no_wkt demo)"
  by (simp add: extract_gdf_def loaded_def blank_def)

lemma demo_not_spatial: "has_spatial_data (geometrize_gdf no_wkt demo) = Inr False"
  by code_simp

text \<open>
  When the destination is the stored \<^verbatim>\<open>outfile\<close> and its directory is missing, the
  directories are created and the second attempt writes the file.
\<close>

lemma extract_to_file_stored_outfile_example:
  "extract_to_file no_wkt (loaded\<lparr>et_outfile := Some [''out'', ''new'', ''result.csv'']\<rparr>)
     None None fs0
   = (Inr (), fs0\<lparr>fs_dirs := [[''out''], [''out'', ''new'']],
                   fs_files := [([''out'', ''new'', ''result.csv''], Tabular CSV demo)]\<rparr>)"
proof -
  let ?s = "loaded\<lparr>et_outfile := Some [''out'', ''new'', ''result.csv'']\<rparr>"
  let ?fs' = "fs0\<lparr>fs_dirs := [[''out''], [''out'', ''new'']]\<rparr>"
  have x: "extract_gdf no_wkt ?s = Inr (geometrize_gdf no_wkt demo)"
    by (simp add: extract_gdf_def loaded_def blank_def)
  have d: "destination ?s None = Some ''out/new/result.csv''" by code_simp
  have w: "write_extracted ?s (geometrize_gdf no_wkt demo) False ''out/new/result.csv'' None fs0
             = Inl (Exn FileNotFoundError ''out/new/result.csv'')" by code_simp
  have p: "et_outfile ?s = Some [''out'', ''new'', ''result.csv'']" by simp
  have m: "makedirs fs0 (parent [''out'', ''new'', ''result.csv'']) = Inr ?fs'" by code_simp
  have w': "write_extracted ?s (geometrize_gdf no_wkt demo) False ''out/new/result.csv'' None ?fs'
             = Inr (fs0\<lparr>fs_dirs := [[''out''], [''out'', ''new'']],
                   fs_files := [([''out'', ''new'', ''result.csv''], Tabular CSV demo)]\<rparr>)"
    by code_simp
  from extract_to_file_retry [OF x demo_not_spatial d w p m] w' show ?thesis by simp
qed

text \<open>
  Claim C6 at a concrete input. The object holds the example table and no stored
  \<^verbatim>\<open>outfile\<close>; \<^verbatim>\<open>extract_to_file\<close> is called with the destination
  \<^verbatim>\<open>out/new/result.csv\<close>, whose directory does not exist. The write fails for that
  reason, and the call ends with the \<^verbatim>\<open>RuntimeError\<close> at once: no directory is created
  and the write is not attempted again, the file system is as it was.
\<close>

theorem extract_to_file_override_not_retried:
  "et_outfile loaded = None
   \<and> \<not> is_dir fs0 (parent (parts_of ''out/new/result.csv''))
   \<and> write_extracted loaded (geometrize_gdf no_wkt demo) False ''out/new/result.csv'' None fs0
        = Inl (Exn FileNotFoundError ''out/new/result.csv'')
   \<and> extract_to_file no_wkt loaded (Some ''out/new/result.csv'') None fs0
        = (Inl (ExnFrom RuntimeError ''Extraction failed:''
                 (Exn FileNotFoundError ''out/new/result.csv'')), fs0)"
proof -
  have p: "et_outfile loaded = None" by (simp add: loaded_def blank_def)
  have n: "\<not> is_dir fs0 (parent (parts_of ''out/new/result.csv''))" by code_simp
  have d: "destination loaded (Some ''out/new/result.csv'') = Some ''out/new/result.csv''"
    by (simp add: destination_def)
  have w: "write_extracted loaded (geometrize_gdf no_wkt demo) False ''out/new/result.csv'' None fs0
             = Inl (Exn FileNotFoundError ''out/new/result.csv'')" by code_simp
  from p n w extract_to_file_no_stored_outfile [OF extract_loaded demo_not_spatial d w p]
  show ?thesis by simp
qed

subsection \<open>Unpacking an archive\<close>

text \<open>
  When the extraction itself fails, because a regular file is in the way of a directory
  or a directory in the way of a member, \<^verbatim>\<open>__unzip\<close> ends with that error, an
  \<^verbatim>\<open>IOError\<close>.
\<close>

lemma ensure_dirs_error: "ensure_dirs fs d = Inl e \<Longrightarrow> is_IOError e"
  by (auto simp: ensure_dirs_def split: if_splits)

lemma extract_member_error: "extract_member cwd fs m = Inl e \<Longrightarrow> is_IOError e"
  by (auto simp: extract_member_def Let_def split: if_splits sum.splits dest: ensure_dirs_error)

lemma extract_members_error:
  "extract_members cwd ms fs = (Some e, fs') \<Longrightarrow> is_IOError e"
proof (induction ms arbitrary: fs)
  case Nil
  then show ?case by simp
next
  case (Cons m ms)
  show ?case
  proof (cases "extract_member cwd fs m")
    case (Inl e')
    with Cons.prems have "e' = e" by simp
    with Inl show ?thesis using extract_member_error by blast
  next
    case (Inr fs1)
    with Cons.prems have "extract_members cwd ms fs1 = (Some e, fs')" by simp
    then show ?thesis by (rule Cons.IH)
  qed
qed

lemma unzip_extraction_fails:
  assumes "map_of (fs_files fs) (parts_of filename) = Some (Archive ms)"
    and "zip_extractall fs filename (fst (splitext filename)) = (Some e, fs')"
  shows "unzip fs filename = (Inl e, fs')" and "is_IOError e"
proof -
  from assms(2) show "unzip fs filename = (Inl e, fs')" by (simp add: unzip_def)
  from assms show "is_IOError e"
    by (auto simp: zip_extractall_def dest: extract_members_error)
qed

text \<open>After a successful extraction the result is the listing of the directory.\<close>

lemma unzip_after_extraction:
  assumes "zip_extractall fs filename (fst (splitext filename)) = (None, fs')"
  shows "unzip fs filename
           = (map_sum id (map (os_path_join (fst (splitext filename))))
                (os_walk_next fs' (fst (splitext filename))), fs')"
  using assms
  by (cases "os_walk_next fs' (fst (splitext filename))")
     (simp_all add: unzip_def is_None_def Let_def)

lemma unzip_not_a_directory:
  assumes "zip_extractall fs filename (fst (splitext filename)) = (None, fs')"
    and "\<not> os_path_isdir fs' (fst (splitext filename))"
  shows "unzip fs filename = (Inl (Exn StopIteration []), fs')"
  using assms by (simp add: unzip_after_extraction os_walk_next_def)

text \<open>
  Claim C7 at a concrete input. For an archive without members and no directory of its
  name, the extraction succeeds and creates nothing; the directory cannot be read back, and
  \<^verbatim>\<open>__unzip\<close> raises \<^verbatim>\<open>StopIteration\<close>, which is no \<^verbatim>\<open>IOError\<close>.
\<close>

theorem unzip_empty_archive_stop_iteration:
  "zip_extractall fs_empty_zip ''a.zip'' ''a'' = (None, fs_empty_zip)
   \<and> \<not> os_path_isdir fs_empty_zip ''a''
   \<and> unzip fs_empty_zip ''a.zip'' = (Inl (Exn StopIteration []), fs_empty_zip)
   \<and> \<not> is_IOError (Exn StopIteration [])"
  by code_simp

end
